theory Spec2Isabelle
  imports Main "HOL-Library.Word"
begin

unbundle bit_operations_syntax

section \<open>Shared vocabulary\<close>

text \<open>
  Package \<open>parse\<close>: a text cursor (\<open>TextReader\<close>) and a binary reader/writer pair
  (\<open>BinaryReader\<close>, \<open>BinaryWriter\<close>).  Every cursor carries a byte count \<open>n\<close> (Go
  \<open>int64\<close>, here a 64-bit word read with \<open>sint\<close>, \<open>+\<close> wraps) and a latched error
  \<open>err\<close> (Go \<open>error\<close>, \<open>nil\<close> is \<open>None\<close>).

  Record fields are global constants in HOL, so the field \<open>x\<close> of \<open>BinaryReader\<close> is
  written \<open>br_x\<close>, of \<open>BinaryWriter\<close> \<open>bw_x\<close> and of \<open>TextReader\<close> \<open>tr_x\<close>.
\<close>

type_synonym byte = "8 word"
type_synonym int64 = "64 word"

text \<open>
  Go error values.  \<open>EOF\<close> is \<open>io.EOF\<close>, \<open>ErrUnexpectedEOF\<close> is
  \<open>io.ErrUnexpectedEOF\<close>, \<open>ErrBufferFull\<close> is \<open>bufio.ErrBufferFull\<close>; \<open>ErrOther\<close> stands
  for any other error value an underlying reader or writer reports.
\<close>

datatype error = EOF | ErrUnexpectedEOF | ErrBufferFull | ErrOther string

text \<open>
  A method either returns (its results and the cursor it leaves) or panics (with the
  cursor as it is when the panic is raised).
\<close>

datatype ('a, 's) outcome = Return 'a 's | Panic string 's

definition returned :: "'a \<times> 's \<Rightarrow> ('a, 's) outcome" where
  "returned p = Return (fst p) (snd p)"

fun final_state :: "('a, 's) outcome \<Rightarrow> 's" where
  "final_state (Return _ s) = s"
| "final_state (Panic _ s) = s"


section \<open>binary.go\<close>

subsection \<open>Numbers and the dynamic type of an \<open>interface{}\<close> argument\<close>

text \<open>
  Signed and unsigned integers of one width share the word type; the constructor of
  \<open>number\<close> carries the Go type, and the conversions \<open>int16(u)\<close>, \<open>uint16(i)\<close> between
  them keep the bits.  A float is represented by its IEEE-754 bit pattern: the code
  touches floats only through \<open>math.Float32bits\<close>, \<open>math.Float32frombits\<close> and their
  64-bit versions, which reinterpret the bits.
\<close>

datatype float32 = Float32frombits (Float32bits: "32 word")
datatype float64 = Float64frombits (Float64bits: "64 word")

datatype number =
    Int8 "8 word" | Uint8 "8 word"
  | Int16 "16 word" | Uint16 "16 word"
  | Int32 "32 word" | Uint32 "32 word"
  | Int64 "64 word" | Uint64 "64 word"
  | Float32 float32 | Float64 float64

datatype kind =
    KInt8 | KUint8 | KInt16 | KUint16 | KInt32 | KUint32 | KInt64 | KUint64
  | KFloat32 | KFloat64

fun kind_of :: "number \<Rightarrow> kind" where
  "kind_of (Int8 _) = KInt8"
| "kind_of (Uint8 _) = KUint8"
| "kind_of (Int16 _) = KInt16"
| "kind_of (Uint16 _) = KUint16"
| "kind_of (Int32 _) = KInt32"
| "kind_of (Uint32 _) = KUint32"
| "kind_of (Int64 _) = KInt64"
| "kind_of (Uint64 _) = KUint64"
| "kind_of (Float32 _) = KFloat32"
| "kind_of (Float64 _) = KFloat64"

text \<open>
  What a caller can pass for \<open>interface{}\<close>: a value of a numeric type (\<open>Val\<close>), a
  non-nil pointer to a variable of a numeric type (\<open>Ptr\<close>; the reader returns what it
  stores there), or a value of any other type (\<open>Other\<close>).
\<close>

datatype iface = Val number | Ptr kind | Other

fun NumberSize :: "iface \<Rightarrow> nat" where
  "NumberSize (Val (Int8 _)) = 1"
| "NumberSize (Val (Uint8 _)) = 1"
| "NumberSize (Ptr KInt8) = 1"
| "NumberSize (Ptr KUint8) = 1"
| "NumberSize (Val (Int16 _)) = 2"
| "NumberSize (Val (Uint16 _)) = 2"
| "NumberSize (Ptr KInt16) = 2"
| "NumberSize (Ptr KUint16) = 2"
| "NumberSize (Val (Int32 _)) = 4"
| "NumberSize (Val (Uint32 _)) = 4"
| "NumberSize (Val (Float32 _)) = 4"
| "NumberSize (Ptr KInt32) = 4"
| "NumberSize (Ptr KUint32) = 4"
| "NumberSize (Ptr KFloat32) = 4"
| "NumberSize (Val (Int64 _)) = 8"
| "NumberSize (Val (Uint64 _)) = 8"
| "NumberSize (Val (Float64 _)) = 8"
| "NumberSize (Ptr KInt64) = 8"
| "NumberSize (Ptr KUint64) = 8"
| "NumberSize (Ptr KFloat64) = 8"
| "NumberSize Other = 0"

subsection \<open>\<open>encoding/binary\<close>: the two standard byte orders\<close>

text \<open>
  \<open>binary.LittleEndian\<close> and \<open>binary.BigEndian\<close>, as the standard library defines them:
  \<open>Uint16(b) = uint16(b[0]) | uint16(b[1])<<8\<close> for little endian, and
  \<open>PutUint16(b, v)\<close> stores \<open>byte(v)\<close> and \<open>byte(v >> 8)\<close>.  The cursors only call them
  on a slice of exactly the width.
\<close>

datatype ByteOrder = LittleEndian | BigEndian

fun ByteOrder_Uint16 :: "ByteOrder \<Rightarrow> byte list \<Rightarrow> 16 word" where
  "ByteOrder_Uint16 LittleEndian b = ucast (b ! 0) OR push_bit 8 (ucast (b ! 1))"
| "ByteOrder_Uint16 BigEndian b = ucast (b ! 1) OR push_bit 8 (ucast (b ! 0))"

fun ByteOrder_PutUint16 :: "ByteOrder \<Rightarrow> byte list \<Rightarrow> 16 word \<Rightarrow> byte list" where
  "ByteOrder_PutUint16 LittleEndian b v = b[0 := ucast v, 1 := ucast (drop_bit 8 v)]"
| "ByteOrder_PutUint16 BigEndian b v = b[0 := ucast (drop_bit 8 v), 1 := ucast v]"

fun ByteOrder_Uint32 :: "ByteOrder \<Rightarrow> byte list \<Rightarrow> 32 word" where
  "ByteOrder_Uint32 LittleEndian b =
     ucast (b ! 0) OR push_bit 8 (ucast (b ! 1)) OR push_bit 16 (ucast (b ! 2)) OR
     push_bit 24 (ucast (b ! 3))"
| "ByteOrder_Uint32 BigEndian b =
     ucast (b ! 3) OR push_bit 8 (ucast (b ! 2)) OR push_bit 16 (ucast (b ! 1)) OR
     push_bit 24 (ucast (b ! 0))"

fun ByteOrder_PutUint32 :: "ByteOrder \<Rightarrow> byte list \<Rightarrow> 32 word \<Rightarrow> byte list" where
  "ByteOrder_PutUint32 LittleEndian b v =
     b[0 := ucast v, 1 := ucast (drop_bit 8 v), 2 := ucast (drop_bit 16 v),
       3 := ucast (drop_bit 24 v)]"
| "ByteOrder_PutUint32 BigEndian b v =
     b[0 := ucast (drop_bit 24 v), 1 := ucast (drop_bit 16 v), 2 := ucast (drop_bit 8 v),
       3 := ucast v]"

fun ByteOrder_Uint64 :: "ByteOrder \<Rightarrow> byte list \<Rightarrow> 64 word" where
  "ByteOrder_Uint64 LittleEndian b =
     ucast (b ! 0) OR push_bit 8 (ucast (b ! 1)) OR push_bit 16 (ucast (b ! 2)) OR
     push_bit 24 (ucast (b ! 3)) OR push_bit 32 (ucast (b ! 4)) OR
     push_bit 40 (ucast (b ! 5)) OR push_bit 48 (ucast (b ! 6)) OR
     push_bit 56 (ucast (b ! 7))"
| "ByteOrder_Uint64 BigEndian b =
     ucast (b ! 7) OR push_bit 8 (ucast (b ! 6)) OR push_bit 16 (ucast (b ! 5)) OR
     push_bit 24 (ucast (b ! 4)) OR push_bit 32 (ucast (b ! 3)) OR
     push_bit 40 (ucast (b ! 2)) OR push_bit 48 (ucast (b ! 1)) OR
     push_bit 56 (ucast (b ! 0))"

fun ByteOrder_PutUint64 :: "ByteOrder \<Rightarrow> byte list \<Rightarrow> 64 word \<Rightarrow> byte list" where
  "ByteOrder_PutUint64 LittleEndian b v =
     b[0 := ucast v, 1 := ucast (drop_bit 8 v), 2 := ucast (drop_bit 16 v),
       3 := ucast (drop_bit 24 v), 4 := ucast (drop_bit 32 v), 5 := ucast (drop_bit 40 v),
       6 := ucast (drop_bit 48 v), 7 := ucast (drop_bit 56 v)]"
| "ByteOrder_PutUint64 BigEndian b v =
     b[0 := ucast (drop_bit 56 v), 1 := ucast (drop_bit 48 v), 2 := ucast (drop_bit 40 v),
       3 := ucast (drop_bit 32 v), 4 := ucast (drop_bit 24 v), 5 := ucast (drop_bit 16 v),
       6 := ucast (drop_bit 8 v), 7 := ucast v]"

subsection \<open>The underlying \<open>io.Reader\<close>\<close>

text \<open>
  The byte source a \<open>BinaryReader\<close> wraps: the bytes it still holds, and the error its
  \<open>Read\<close> reports once they are used up (\<open>EOF\<close> for a source that simply ends).

  \<open>io.ReadFull(r, p)\<close> reads until \<open>p\<close> is full or \<open>Read\<close> fails.  It returns the
  count and no error when \<open>p\<close> was filled (a \<open>p\<close> of length 0 is full at once);
  otherwise the reader's error, where \<open>EOF\<close> after at least one byte becomes
  \<open>ErrUnexpectedEOF\<close> and \<open>EOF\<close> after no byte stays \<open>EOF\<close>.  The bytes obtained
  overwrite the front of \<open>p\<close>.

  \<open>io.ReadAll(r)\<close> reads to the end; \<open>EOF\<close> is not an error for it.
\<close>

record io_Reader =
  src_bytes :: "byte list"
  src_err :: error

definition io_ReadFull ::
  "io_Reader \<Rightarrow> byte list \<Rightarrow> (nat \<times> error option) \<times> byte list \<times> io_Reader" where
  "io_ReadFull src p =
     (let got = take (length p) (src_bytes src);
          src' = src\<lparr>src_bytes := drop (length p) (src_bytes src)\<rparr>;
          p' = got @ drop (length got) p
      in if length p \<le> length (src_bytes src) then ((length got, None), p', src')
         else if src_err src = EOF \<and> 0 < length got
              then ((length got, Some ErrUnexpectedEOF), p', src')
              else ((length got, Some (src_err src)), p', src'))"

definition io_ReadAll :: "io_Reader \<Rightarrow> (byte list \<times> error option) \<times> io_Reader" where
  "io_ReadAll src =
     ((src_bytes src, if src_err src = EOF then None else Some (src_err src)),
      src\<lparr>src_bytes := []\<rparr>)"

subsection \<open>BinaryReader\<close>

record BinaryReader =
  br_r :: io_Reader
  br_ord :: ByteOrder
  br_n :: int64
  br_err :: "error option"

definition NewBinaryReader :: "io_Reader \<Rightarrow> BinaryReader" where
  "NewBinaryReader r = \<lparr>br_r = r, br_ord = LittleEndian, br_n = 0, br_err = None\<rparr>"

definition BinaryReader_N :: "BinaryReader \<Rightarrow> int64" where
  "BinaryReader_N r = br_n r"

definition BinaryReader_Err :: "BinaryReader \<Rightarrow> error option" where
  "BinaryReader_Err r = br_err r"

definition BinaryReader_End :: "BinaryReader \<Rightarrow> int64 \<times> error option" where
  "BinaryReader_End r = (br_n r, br_err r)"

text \<open>The argument is an interface value: \<open>None\<close> is the nil byte order.\<close>

definition BinaryReader_SetByteOrder ::
  "BinaryReader \<Rightarrow> ByteOrder option \<Rightarrow> (unit, BinaryReader) outcome" where
  "BinaryReader_SetByteOrder r order =
     (case order of
        None \<Rightarrow> Panic ''expected non-nil ByteOrder'' r
      | Some ord \<Rightarrow> Return () (r\<lparr>br_ord := ord\<rparr>))"

definition BinaryReader_Add ::
  "BinaryReader \<Rightarrow> int64 \<Rightarrow> error option \<Rightarrow> bool \<times> BinaryReader" where
  "BinaryReader_Add r k e =
     (if br_err r \<noteq> None then (True, r)
      else let r' = r\<lparr>br_n := br_n r + k, br_err := e\<rparr>
           in if br_err r' \<noteq> None then (True, r') else (False, r'))"

text \<open>\<open>Bytes(p)\<close>: the result carries the failure flag and the contents of \<open>p\<close> afterwards.\<close>

definition BinaryReader_Bytes ::
  "BinaryReader \<Rightarrow> byte list \<Rightarrow> (bool \<times> byte list) \<times> BinaryReader" where
  "BinaryReader_Bytes r p =
     (if br_err r \<noteq> None then ((True, p), r)
      else case io_ReadFull (br_r r) p of
        ((k, e), p', src) \<Rightarrow>
          let r' = r\<lparr>br_r := src, br_err := e, br_n := br_n r + of_nat k\<rparr>
          in if br_err r' \<noteq> None then ((True, p'), r') else ((False, p'), r'))"

text \<open>
  \<open>Number(v)\<close>: the result carries the failure flag and the number stored through the
  pointer \<open>v\<close>, if one was stored.
\<close>

definition BinaryReader_Number ::
  "BinaryReader \<Rightarrow> iface \<Rightarrow> (bool \<times> number option, BinaryReader) outcome" where
  "BinaryReader_Number r v =
     (if br_err r \<noteq> None then Return (True, None) r
      else let size = NumberSize v in
        if size = 0 then Panic ''invalid type'' r
        else let b = replicate size (0 :: byte) in
          case BinaryReader_Bytes r b of
            ((True, _), r') \<Rightarrow> Return (True, None) r'
          | ((False, b), r') \<Rightarrow>
              (case v of
                 Ptr KInt8 \<Rightarrow> Return (False, Some (Int8 (b ! 0))) r'
               | Ptr KUint8 \<Rightarrow> Return (False, Some (Uint8 (b ! 0))) r'
               | Ptr KInt16 \<Rightarrow> Return (False, Some (Int16 (ByteOrder_Uint16 (br_ord r') b))) r'
               | Ptr KUint16 \<Rightarrow> Return (False, Some (Uint16 (ByteOrder_Uint16 (br_ord r') b))) r'
               | Ptr KInt32 \<Rightarrow> Return (False, Some (Int32 (ByteOrder_Uint32 (br_ord r') b))) r'
               | Ptr KUint32 \<Rightarrow> Return (False, Some (Uint32 (ByteOrder_Uint32 (br_ord r') b))) r'
               | Ptr KInt64 \<Rightarrow> Return (False, Some (Int64 (ByteOrder_Uint64 (br_ord r') b))) r'
               | Ptr KUint64 \<Rightarrow> Return (False, Some (Uint64 (ByteOrder_Uint64 (br_ord r') b))) r'
               | Ptr KFloat32 \<Rightarrow>
                   Return (False, Some (Float32 (Float32frombits (ByteOrder_Uint32 (br_ord r') b)))) r'
               | Ptr KFloat64 \<Rightarrow>
                   Return (False, Some (Float64 (Float64frombits (ByteOrder_Uint64 (br_ord r') b)))) r'
               | _ \<Rightarrow> Panic ''invalid type'' r'))"

definition BinaryReader_All :: "BinaryReader \<Rightarrow> (byte list \<times> bool) \<times> BinaryReader" where
  "BinaryReader_All r =
     (if br_err r \<noteq> None then (([], True), r)
      else case io_ReadAll (br_r r) of
        ((bs, e), src) \<Rightarrow>
          let r' = r\<lparr>br_r := src, br_err := e, br_n := br_n r + of_nat (length bs)\<rparr>
          in if br_err r' \<noteq> None then (([], True), r') else ((bs, False), r'))"

subsection \<open>The underlying \<open>io.Writer\<close>\<close>

text \<open>
  An \<open>io.Writer\<close> is an interface value: a \<open>Write\<close> method and the state it works on.
  \<open>Write\<close> returns the count it reports, its error and the new state; the cursor
  calls it once per \<open>Bytes\<close> and takes whatever it returns.

  \<open>bytes_Buffer\<close> is \<open>bytes.Buffer\<close>: it appends all of \<open>p\<close> and reports \<open>len(p), nil\<close>.
  \<open>short_Writer k\<close> accepts at most \<open>k\<close> bytes per call and reports the count with a nil
  error.
\<close>

record 's io_Writer =
  Write :: "'s \<Rightarrow> byte list \<Rightarrow> (int \<times> error option) \<times> 's"
  sink :: 's

definition bytes_Buffer :: "byte list io_Writer" where
  "bytes_Buffer = \<lparr>Write = (\<lambda>s p. ((int (length p), None), s @ p)), sink = []\<rparr>"

definition short_Writer :: "nat \<Rightarrow> byte list io_Writer" where
  "short_Writer k =
     \<lparr>Write = (\<lambda>s p. ((int (length (take k p)), None), s @ take k p)), sink = []\<rparr>"

subsection \<open>BinaryWriter\<close>

record 's BinaryWriter =
  bw_w :: "'s io_Writer"
  bw_ord :: ByteOrder
  bw_n :: int64
  bw_err :: "error option"

definition NewBinaryWriter :: "'s io_Writer \<Rightarrow> 's BinaryWriter" where
  "NewBinaryWriter w = \<lparr>bw_w = w, bw_ord = LittleEndian, bw_n = 0, bw_err = None\<rparr>"

definition BinaryWriter_N :: "'s BinaryWriter \<Rightarrow> int64" where
  "BinaryWriter_N w = bw_n w"

definition BinaryWriter_Err :: "'s BinaryWriter \<Rightarrow> error option" where
  "BinaryWriter_Err w = bw_err w"

definition BinaryWriter_End :: "'s BinaryWriter \<Rightarrow> int64 \<times> error option" where
  "BinaryWriter_End w = (bw_n w, bw_err w)"

definition BinaryWriter_SetByteOrder ::
  "'s BinaryWriter \<Rightarrow> ByteOrder option \<Rightarrow> (unit, 's BinaryWriter) outcome" where
  "BinaryWriter_SetByteOrder w order =
     (case order of
        None \<Rightarrow> Panic ''expected non-nil ByteOrder'' w
      | Some ord \<Rightarrow> Return () (w\<lparr>bw_ord := ord\<rparr>))"

definition BinaryWriter_Add ::
  "'s BinaryWriter \<Rightarrow> int64 \<Rightarrow> error option \<Rightarrow> bool \<times> 's BinaryWriter" where
  "BinaryWriter_Add w k e =
     (if bw_err w \<noteq> None then (True, w)
      else let w' = w\<lparr>bw_n := bw_n w + k, bw_err := e\<rparr>
           in if bw_err w' \<noteq> None then (True, w') else (False, w'))"

definition BinaryWriter_Bytes :: "'s BinaryWriter \<Rightarrow> byte list \<Rightarrow> bool \<times> 's BinaryWriter" where
  "BinaryWriter_Bytes w p =
     (if bw_err w \<noteq> None then (True, w)
      else case Write (bw_w w) (sink (bw_w w)) p of
        ((k, e), s) \<Rightarrow>
          let w' = w\<lparr>bw_w := (bw_w w)\<lparr>sink := s\<rparr>, bw_err := e,
                     bw_n := bw_n w + word_of_int k\<rparr>
          in if k < int (length p) then (True, w') else (False, w'))"

definition BinaryWriter_Number ::
  "'s BinaryWriter \<Rightarrow> iface \<Rightarrow> (bool, 's BinaryWriter) outcome" where
  "BinaryWriter_Number w v =
     (if bw_err w \<noteq> None then Return True w
      else let size = NumberSize v in
        if size = 0 then Panic ''invalid type'' w
        else let b = replicate size (0 :: byte) in
          case v of
            Val (Int8 x) \<Rightarrow> returned (BinaryWriter_Bytes w (b[0 := x]))
          | Val (Uint8 x) \<Rightarrow> returned (BinaryWriter_Bytes w (b[0 := x]))
          | Val (Int16 x) \<Rightarrow> returned (BinaryWriter_Bytes w (ByteOrder_PutUint16 (bw_ord w) b x))
          | Val (Uint16 x) \<Rightarrow> returned (BinaryWriter_Bytes w (ByteOrder_PutUint16 (bw_ord w) b x))
          | Val (Int32 x) \<Rightarrow> returned (BinaryWriter_Bytes w (ByteOrder_PutUint32 (bw_ord w) b x))
          | Val (Uint32 x) \<Rightarrow> returned (BinaryWriter_Bytes w (ByteOrder_PutUint32 (bw_ord w) b x))
          | Val (Int64 x) \<Rightarrow> returned (BinaryWriter_Bytes w (ByteOrder_PutUint64 (bw_ord w) b x))
          | Val (Uint64 x) \<Rightarrow> returned (BinaryWriter_Bytes w (ByteOrder_PutUint64 (bw_ord w) b x))
          | Val (Float32 x) \<Rightarrow>
              returned (BinaryWriter_Bytes w (ByteOrder_PutUint32 (bw_ord w) b (Float32bits x)))
          | Val (Float64 x) \<Rightarrow>
              returned (BinaryWriter_Bytes w (ByteOrder_PutUint64 (bw_ord w) b (Float64bits x)))
          | _ \<Rightarrow> Panic ''invalid type'' w)"

section \<open>The text cursor\<close>

subsection \<open>\<open>unicode/utf8\<close> and the conversion \<open>string(rune)\<close>\<close>

text \<open>
  A Go \<open>string\<close> is a sequence of bytes, as an Isabelle \<open>string\<close> is.  A \<open>rune\<close> is an
  \<open>int32\<close>; the cursor only compares runes, so they are integers here: the decoder
  yields code points and \<open>-1\<close> is the failure value of \<open>Next\<close>.

  \<open>DecodeRune\<close> follows \<open>utf8.DecodeRune\<close>: the table \<open>first\<close> gives for the leading
  byte the width in its low three bits and the index of the range the second byte must
  lie in; an invalid or truncated encoding decodes as \<open>RuneError\<close> of width 1.
\<close>

type_synonym rune = int

definition RuneError :: rune where
  "RuneError = 0xFFFD"

definition first :: "int \<Rightarrow> int" where
  "first p0 =
     (if p0 < 0x80 then 0xF0
      else if p0 < 0xC2 then 0xF1
      else if p0 < 0xE0 then 0x02
      else if p0 = 0xE0 then 0x13
      else if p0 < 0xED then 0x03
      else if p0 = 0xED then 0x23
      else if p0 < 0xF0 then 0x03
      else if p0 = 0xF0 then 0x34
      else if p0 < 0xF4 then 0x04
      else if p0 = 0xF4 then 0x44
      else 0xF1)"

definition acceptRanges :: "int \<Rightarrow> int \<times> int" where
  "acceptRanges i =
     (if i = 1 then (0xA0, 0xBF)
      else if i = 2 then (0x80, 0x9F)
      else if i = 3 then (0x90, 0xBF)
      else if i = 4 then (0x80, 0x8F)
      else (0x80, 0xBF))"

fun DecodeRune :: "string \<Rightarrow> rune \<times> nat" where
  "DecodeRune [] = (RuneError, 0)"
| "DecodeRune (c0 # cs) =
     (let p0 = of_char c0; x = first p0 in
      if 0xF0 \<le> x then (if x AND 1 = 0 then (p0, 1) else (RuneError, 1))
      else
        let sz = nat (x AND 7); accept = acceptRanges (drop_bit 4 x) in
        if length (c0 # cs) < sz then (RuneError, 1)
        else
          let b1 = of_char (cs ! 0) in
          if b1 < fst accept \<or> snd accept < b1 then (RuneError, 1)
          else if sz \<le> 2 then (push_bit 6 (p0 AND 0x1F) OR (b1 AND 0x3F), 2)
          else
            let b2 = of_char (cs ! 1) in
            if b2 < 0x80 \<or> 0xBF < b2 then (RuneError, 1)
            else if sz \<le> 3
            then (push_bit 12 (p0 AND 0x0F) OR push_bit 6 (b1 AND 0x3F) OR (b2 AND 0x3F), 3)
            else
              let b3 = of_char (cs ! 2) in
              if b3 < 0x80 \<or> 0xBF < b3 then (RuneError, 1)
              else (push_bit 18 (p0 AND 0x07) OR push_bit 12 (b1 AND 0x3F) OR
                    push_bit 6 (b2 AND 0x3F) OR (b3 AND 0x3F), 4))"

text \<open>
  \<open>string(c)\<close> for a rune \<open>c\<close>: its UTF-8 encoding, and that of \<open>RuneError\<close> for a
  value that is no code point.
\<close>

definition string_of_rune :: "rune \<Rightarrow> string" where
  "string_of_rune c0 =
     (let c = (if c0 < 0 \<or> 0x10FFFF < c0 \<or> (0xD800 \<le> c0 \<and> c0 \<le> 0xDFFF)
               then RuneError else c0) in
      if c < 0x80 then [char_of c]
      else if c < 0x800
      then [char_of (0xC0 OR drop_bit 6 c), char_of (0x80 OR (c AND 0x3F))]
      else if c < 0x10000
      then [char_of (0xE0 OR drop_bit 12 c), char_of (0x80 OR (drop_bit 6 c AND 0x3F)),
            char_of (0x80 OR (c AND 0x3F))]
      else [char_of (0xF0 OR drop_bit 18 c), char_of (0x80 OR (drop_bit 12 c AND 0x3F)),
            char_of (0x80 OR (drop_bit 6 c AND 0x3F)), char_of (0x80 OR (c AND 0x3F))])"

subsection \<open>\<open>bufio.Reader\<close>\<close>

text \<open>
  The buffered reader a \<open>TextReader\<close> owns, seen from its methods: the bytes not yet
  consumed (buffered or still in the wrapped reader), the error the wrapped reader
  reports after the last of them, the size of the buffer, and the bytes of the rune the
  last \<open>ReadRune\<close> returned (empty when the last operation was not a \<open>ReadRune\<close>; that is
  \<open>lastRuneSize = -1\<close>).

  \<open>ReadRune\<close> decodes one rune and consumes its bytes, or reports the wrapped reader's
  error when no byte is left.  \<open>UnreadRune\<close> puts the last rune back (its error, when
  there is none to put back, is dropped by every caller here).  \<open>Peek(k)\<close> returns the
  next \<open>k\<close> bytes without consuming them; it fails with \<open>ErrBufferFull\<close> when \<open>k\<close>
  exceeds the buffer and with the wrapped reader's error when fewer than \<open>k\<close> bytes are
  left.  \<open>Discard(k)\<close> skips \<open>k\<close> bytes.  \<open>ioutil.ReadAll\<close> reads to the end, and \<open>EOF\<close>
  is not an error for it.
\<close>

record bufio_Reader =
  rd_pending :: string
  rd_err :: error
  rd_size :: nat
  rd_lastRune :: string

definition bufio_NewReader :: "string \<Rightarrow> error \<Rightarrow> bufio_Reader" where
  "bufio_NewReader bs e = \<lparr>rd_pending = bs, rd_err = e, rd_size = 4096, rd_lastRune = []\<rparr>"

definition bufio_ReadRune :: "bufio_Reader \<Rightarrow> (rune \<times> nat \<times> error option) \<times> bufio_Reader" where
  "bufio_ReadRune b =
     (if rd_pending b = [] then ((0, 0, Some (rd_err b)), b\<lparr>rd_lastRune := []\<rparr>)
      else case DecodeRune (rd_pending b) of
        (c, w) \<Rightarrow>
          ((c, w, None),
           b\<lparr>rd_pending := drop w (rd_pending b),
             rd_lastRune := take w (rd_pending b)\<rparr>))"

definition bufio_UnreadRune :: "bufio_Reader \<Rightarrow> bufio_Reader" where
  "bufio_UnreadRune b =
     (if rd_lastRune b = [] then b
      else b\<lparr>rd_pending := rd_lastRune b @ rd_pending b, rd_lastRune := []\<rparr>)"

definition bufio_Peek :: "bufio_Reader \<Rightarrow> nat \<Rightarrow> (string \<times> error option) \<times> bufio_Reader" where
  "bufio_Peek b k =
     (let b' = b\<lparr>rd_lastRune := []\<rparr> in
      if rd_size b < k then ((take (rd_size b) (rd_pending b), Some ErrBufferFull), b')
      else if length (rd_pending b) < k then ((rd_pending b, Some (rd_err b)), b')
      else ((take k (rd_pending b), None), b'))"

definition bufio_Discard :: "bufio_Reader \<Rightarrow> nat \<Rightarrow> (nat \<times> error option) \<times> bufio_Reader" where
  "bufio_Discard b k =
     ((length (take k (rd_pending b)),
       if length (rd_pending b) < k then Some (rd_err b) else None),
      b\<lparr>rd_pending := drop k (rd_pending b), rd_lastRune := []\<rparr>)"

definition ioutil_ReadAll :: "bufio_Reader \<Rightarrow> (string \<times> error option) \<times> bufio_Reader" where
  "ioutil_ReadAll b =
     ((rd_pending b, if rd_err b = EOF then None else Some (rd_err b)),
      b\<lparr>rd_pending := [],
        rd_lastRune := (if rd_pending b = [] then rd_lastRune b else [])\<rparr>)"

subsection \<open>TextReader\<close>

record TextReader =
  tr_r :: bufio_Reader
  tr_buf :: string
  tr_n :: int64
  tr_err :: "error option"

text \<open>
  The \<open>io.Reader\<close> handed to \<open>NewTextReader\<close> is either a \<open>*bufio.Reader\<close>, which is
  used as it is, or another reader (its bytes and final error), which is wrapped by
  \<open>bufio.NewReader\<close>.
\<close>

datatype io_Reader_arg = Bufio bufio_Reader | Unbuffered string error

fun NewTextReader :: "io_Reader_arg \<Rightarrow> TextReader" where
  "NewTextReader (Bufio br) =
     \<lparr>tr_r = br, tr_buf = replicate 64 (CHR 0x00), tr_n = 0, tr_err = None\<rparr>"
| "NewTextReader (Unbuffered bs e) =
     \<lparr>tr_r = bufio_NewReader bs e, tr_buf = replicate 64 (CHR 0x00), tr_n = 0,
      tr_err = None\<rparr>"

definition TextReader_N :: "TextReader \<Rightarrow> int64" where
  "TextReader_N t = tr_n t"

definition TextReader_Err :: "TextReader \<Rightarrow> error option" where
  "TextReader_Err t = tr_err t"

definition TextReader_End :: "TextReader \<Rightarrow> int64 \<times> error option" where
  "TextReader_End t = (tr_n t, tr_err t)"

definition TextReader_Next :: "TextReader \<Rightarrow> rune \<times> TextReader" where
  "TextReader_Next t =
     (if tr_err t \<noteq> None then (-1, t)
      else case bufio_ReadRune (tr_r t) of
        ((c, w, e), b) \<Rightarrow>
          let t1 = t\<lparr>tr_r := b, tr_err := e\<rparr>
          in if tr_err t1 \<noteq> None then (-1, t1)
             else (c, t1\<lparr>tr_n := tr_n t1 + of_nat w\<rparr>))"

definition TextReader_MustNext :: "TextReader \<Rightarrow> rune \<times> TextReader" where
  "TextReader_MustNext t =
     (if tr_err t \<noteq> None then (-1, t)
      else case TextReader_Next t of
        (c, t1) \<Rightarrow>
          if c < 0 \<and> tr_err t1 = Some EOF then (c, t1\<lparr>tr_err := Some ErrUnexpectedEOF\<rparr>)
          else (c, t1))"

definition TextReader_Is :: "TextReader \<Rightarrow> string \<Rightarrow> bool \<times> TextReader" where
  "TextReader_Is t s =
     (if tr_err t \<noteq> None then (False, t)
      else if s = [] then (True, t)
      else case bufio_Peek (tr_r t) (length s) of
        ((b, e), br) \<Rightarrow>
          let t1 = t\<lparr>tr_r := br, tr_err := e\<rparr>
          in if tr_err t1 \<noteq> None
             then (if tr_err t1 = Some EOF then (False, t1\<lparr>tr_err := None\<rparr>)
                   else (False, t1))
             else if b \<noteq> s then (False, t1)
             else let t2 = t1\<lparr>tr_r := snd (bufio_Discard (tr_r t1) (length s))\<rparr>
                  in (True, t2\<lparr>tr_n := tr_n t2 + of_nat (length s)\<rparr>))"

definition TextReader_IsEOF :: "TextReader \<Rightarrow> bool \<times> TextReader" where
  "TextReader_IsEOF t =
     (if tr_err t \<noteq> None then (tr_err t = Some EOF, t)
      else case bufio_Peek (tr_r t) 1 of
        ((b, e), br) \<Rightarrow> (e = Some EOF, t\<lparr>tr_r := br\<rparr>))"

definition TextReader_UntilEOF :: "TextReader \<Rightarrow> (string \<times> bool) \<times> TextReader" where
  "TextReader_UntilEOF t =
     (if tr_err t \<noteq> None then (('''', False), t)
      else case ioutil_ReadAll (tr_r t) of
        ((b, e), br) \<Rightarrow>
          let t1 = t\<lparr>tr_r := br, tr_err := e\<rparr>
          in if tr_err t1 \<noteq> None then (('''', False), t1)
             else ((b, True), t1\<lparr>tr_n := tr_n t1 + of_nat (length b)\<rparr>))"

text \<open>
  The four scanning methods are loops over \<open>ReadRune\<close>.  Each \<open>_loop\<close> function is the
  body of the \<open>for\<close> statement; the method checks the latched error, empties \<open>buf\<close>
  where the source does, and enters the loop.  A successful \<open>ReadRune\<close> consumes at
  least one byte, which is why the loops end.  The defining equations are recursive
  without a guard, so they are unfolded by hand and kept out of the simplifier.
\<close>

function IsAny_loop :: "(rune \<Rightarrow> bool) \<Rightarrow> TextReader \<Rightarrow> (string \<times> bool) \<times> TextReader" where
  "IsAny_loop f t =
     (case bufio_ReadRune (tr_r t) of
        ((c, w, e), b) \<Rightarrow>
          let t1 = t\<lparr>tr_r := b, tr_err := e\<rparr>
          in if tr_err t1 \<noteq> None
             then (if tr_err t1 = Some EOF then ((tr_buf t1, True), t1\<lparr>tr_err := None\<rparr>)
                   else (('''', False), t1))
             else if \<not> f c
             then ((tr_buf t1, True), t1\<lparr>tr_r := bufio_UnreadRune (tr_r t1)\<rparr>)
             else IsAny_loop f (t1\<lparr>tr_buf := tr_buf t1 @ string_of_rune c,
                                    tr_n := tr_n t1 + of_nat w\<rparr>))"
  by pat_completeness auto
termination
  apply (relation "measure (\<lambda>(f, t). length (rd_pending (tr_r t)))")
   apply simp
  apply (simp add: bufio_ReadRune_def split: if_splits prod.splits list.splits)
  apply (case_tac "rd_pending (tr_r t)")
   apply (auto simp: Let_def split: if_splits)
  done

declare IsAny_loop.simps [simp del]

definition TextReader_IsAny ::
  "TextReader \<Rightarrow> (rune \<Rightarrow> bool) \<Rightarrow> (string \<times> bool) \<times> TextReader" where
  "TextReader_IsAny t f =
     (if tr_err t \<noteq> None then (('''', False), t)
      else IsAny_loop f (t\<lparr>tr_buf := []\<rparr>))"

function Skip_loop :: "(rune \<Rightarrow> bool) \<Rightarrow> TextReader \<Rightarrow> bool \<times> TextReader" where
  "Skip_loop f t =
     (case bufio_ReadRune (tr_r t) of
        ((c, w, e), b) \<Rightarrow>
          let t1 = t\<lparr>tr_r := b, tr_err := e\<rparr>
          in if tr_err t1 \<noteq> None
             then (if tr_err t1 = Some EOF then (True, t1\<lparr>tr_err := None\<rparr>)
                   else (False, t1))
             else if \<not> f c
             then (True, t1\<lparr>tr_r := bufio_UnreadRune (tr_r t1)\<rparr>)
             else Skip_loop f (t1\<lparr>tr_n := tr_n t1 + of_nat w\<rparr>))"
  by pat_completeness auto
termination
  apply (relation "measure (\<lambda>(f, t). length (rd_pending (tr_r t)))")
   apply simp
  apply (simp add: bufio_ReadRune_def split: if_splits prod.splits list.splits)
  apply (case_tac "rd_pending (tr_r t)")
   apply (auto simp: Let_def split: if_splits)
  done

declare Skip_loop.simps [simp del]

definition TextReader_Skip :: "TextReader \<Rightarrow> (rune \<Rightarrow> bool) \<Rightarrow> bool \<times> TextReader" where
  "TextReader_Skip t f =
     (if tr_err t \<noteq> None then (False, t)
      else Skip_loop f t)"

function Until_loop :: "rune \<Rightarrow> TextReader \<Rightarrow> (string \<times> bool) \<times> TextReader" where
  "Until_loop v t =
     (case bufio_ReadRune (tr_r t) of
        ((c, w, e), b) \<Rightarrow>
          let t1 = t\<lparr>tr_r := b, tr_err := e\<rparr>
          in if tr_err t1 \<noteq> None
             then (if tr_err t1 = Some EOF
                   then (('''', False), t1\<lparr>tr_err := Some ErrUnexpectedEOF\<rparr>)
                   else (('''', False), t1))
             else if c = v then ((tr_buf t1, True), t1)
             else Until_loop v (t1\<lparr>tr_buf := tr_buf t1 @ string_of_rune c,
                                    tr_n := tr_n t1 + of_nat w\<rparr>))"
  by pat_completeness auto
termination
  apply (relation "measure (\<lambda>(v, t). length (rd_pending (tr_r t)))")
   apply simp
  apply (simp add: bufio_ReadRune_def split: if_splits prod.splits list.splits)
  apply (case_tac "rd_pending (tr_r t)")
   apply (auto simp: Let_def split: if_splits)
  done

declare Until_loop.simps [simp del]

definition TextReader_Until :: "TextReader \<Rightarrow> rune \<Rightarrow> (string \<times> bool) \<times> TextReader" where
  "TextReader_Until t v =
     (if tr_err t \<noteq> None then (('''', False), t)
      else Until_loop v (t\<lparr>tr_buf := []\<rparr>))"

function UntilAny_loop ::
  "(rune \<Rightarrow> bool) \<Rightarrow> TextReader \<Rightarrow> (string \<times> bool) \<times> TextReader" where
  "UntilAny_loop f t =
     (case bufio_ReadRune (tr_r t) of
        ((c, w, e), b) \<Rightarrow>
          let t1 = t\<lparr>tr_r := b, tr_err := e\<rparr>
          in if tr_err t1 \<noteq> None
             then (if tr_err t1 = Some EOF
                   then (('''', False), t1\<lparr>tr_err := Some ErrUnexpectedEOF\<rparr>)
                   else (('''', False), t1))
             else if f c then ((tr_buf t1, True), t1)
             else UntilAny_loop f (t1\<lparr>tr_buf := tr_buf t1 @ string_of_rune c,
                                       tr_n := tr_n t1 + of_nat w\<rparr>))"
  by pat_completeness auto
termination
  apply (relation "measure (\<lambda>(f, t). length (rd_pending (tr_r t)))")
   apply simp
  apply (simp add: bufio_ReadRune_def split: if_splits prod.splits list.splits)
  apply (case_tac "rd_pending (tr_r t)")
   apply (auto simp: Let_def split: if_splits)
  done

declare UntilAny_loop.simps [simp del]

definition TextReader_UntilAny ::
  "TextReader \<Rightarrow> (rune \<Rightarrow> bool) \<Rightarrow> (string \<times> bool) \<times> TextReader" where
  "TextReader_UntilAny t f =
     (if tr_err t \<noteq> None then (('''', False), t)
      else UntilAny_loop f (t\<lparr>tr_buf := []\<rparr>))"

section \<open>Writing a number and reading it back\<close>

text \<open>
  \<open>fresh_writer ord\<close> is a new \<open>BinaryWriter\<close> over an empty \<open>bytes.Buffer\<close>, and
  \<open>fresh_reader ord bs\<close> a new \<open>BinaryReader\<close> over a source holding exactly \<open>bs\<close>, both
  after \<open>SetByteOrder(ord)\<close>.  \<open>encode\<close> is what \<open>BinaryWriter.Number\<close> leaves in the
  buffer when it reports success; \<open>decode\<close> is what \<open>BinaryReader.Number\<close> stores
  through a pointer of kind \<open>k\<close> when it reports success and has used up \<open>bs\<close>.
\<close>

definition fresh_writer :: "ByteOrder \<Rightarrow> byte list BinaryWriter" where
  "fresh_writer ord =
     final_state (BinaryWriter_SetByteOrder (NewBinaryWriter bytes_Buffer) (Some ord))"

definition fresh_reader :: "ByteOrder \<Rightarrow> byte list \<Rightarrow> BinaryReader" where
  "fresh_reader ord bs =
     final_state (BinaryReader_SetByteOrder
       (NewBinaryReader \<lparr>src_bytes = bs, src_err = EOF\<rparr>) (Some ord))"

definition encode :: "ByteOrder \<Rightarrow> number \<Rightarrow> byte list option" where
  "encode ord x =
     (case BinaryWriter_Number (fresh_writer ord) (Val x) of
        Return failed w \<Rightarrow> if failed then None else Some (sink (bw_w w))
      | Panic _ _ \<Rightarrow> None)"

definition decode :: "ByteOrder \<Rightarrow> kind \<Rightarrow> byte list \<Rightarrow> number option" where
  "decode ord k bs =
     (case BinaryReader_Number (fresh_reader ord bs) (Ptr k) of
        Return (failed, stored) r \<Rightarrow>
          if failed \<or> src_bytes (br_r r) \<noteq> [] then None else stored
      | Panic _ _ \<Rightarrow> None)"

section \<open>Byte orders are inverse to each other\<close>

lemma length2E: "length b = 2 \<Longrightarrow> \<exists>b0 b1. b = [b0, b1]"
  by (auto simp: length_Suc_conv numeral_eq_Suc)

lemma length4E: "length b = 4 \<Longrightarrow> \<exists>b0 b1 b2 b3. b = [b0, b1, b2, b3]"
  by (auto simp: length_Suc_conv numeral_eq_Suc)

lemma length8E:
  "length b = 8 \<Longrightarrow> \<exists>b0 b1 b2 b3 b4 b5 b6 b7. b = [b0, b1, b2, b3, b4, b5, b6, b7]"
  by (auto simp: length_Suc_conv numeral_eq_Suc)

lemma byte_bit_high: "8 \<le> m \<Longrightarrow> bit (w :: byte) m = False"
  using bit_imp_le_length [of w m] by auto

text \<open>Taking byte \<open>k\<close> out of a word that holds byte \<open>a\<close> at position \<open>j\<close>.\<close>

lemma byte_own:
  "k + 8 \<le> LENGTH('a) \<Longrightarrow>
   (ucast (drop_bit k (push_bit k (ucast a :: 'a::len word))) :: byte) = a" for a :: byte
  by (rule bit_word_eqI) (auto simp: bit_simps)

lemma byte_own0:
  "8 \<le> LENGTH('a) \<Longrightarrow> (ucast (ucast a :: 'a::len word) :: byte) = a" for a :: byte
  by (rule bit_word_eqI) (auto simp: bit_simps)

lemma byte_above:
  "k + 8 \<le> j \<Longrightarrow> (ucast (drop_bit k (push_bit j (ucast a :: 'a::len word))) :: byte) = 0"
  for a :: byte
  by (rule bit_word_eqI) (auto simp: bit_simps)

lemma byte_above0:
  "8 \<le> j \<Longrightarrow> (ucast (push_bit j (ucast a :: 'a::len word)) :: byte) = 0" for a :: byte
  by (rule bit_word_eqI) (auto simp: bit_simps)

lemma byte_below:
  "j + 8 \<le> k \<Longrightarrow> (ucast (drop_bit k (push_bit j (ucast a :: 'a::len word))) :: byte) = 0"
  for a :: byte
  by (rule bit_word_eqI) (auto simp: bit_simps byte_bit_high)

lemma byte_below0:
  "8 \<le> k \<Longrightarrow> (ucast (drop_bit k (ucast a :: 'a::len word)) :: byte) = 0" for a :: byte
  by (rule bit_word_eqI) (auto simp: bit_simps byte_bit_high)

lemmas byte_get = byte_own byte_own0 byte_above byte_above0 byte_below byte_below0

text \<open>The bits of a word that byte \<open>k\<close> of it contributes when it is put back.\<close>

lemma bit_byte_put:
  "bit (push_bit k (ucast (ucast (drop_bit k v) :: byte)) :: 'a::len word) n \<longleftrightarrow>
     k \<le> n \<and> n < k + 8 \<and> bit v n" for v :: "'a::len word"
  by (auto simp: bit_simps dest: bit_imp_le_length)

lemma bit_byte_put0:
  "bit (ucast (ucast v :: byte) :: 'a::len word) n \<longleftrightarrow> n < 8 \<and> bit v n"
  for v :: "'a::len word"
  by (auto simp: bit_simps dest: bit_imp_le_length)

lemma length_PutUint16 [simp]: "length (ByteOrder_PutUint16 ord b v) = length b"
  by (cases ord) simp_all

lemma length_PutUint32 [simp]: "length (ByteOrder_PutUint32 ord b v) = length b"
  by (cases ord) simp_all

lemma length_PutUint64 [simp]: "length (ByteOrder_PutUint64 ord b v) = length b"
  by (cases ord) simp_all

lemma Uint16_PutUint16:
  "length z = 2 \<Longrightarrow> ByteOrder_Uint16 ord (ByteOrder_PutUint16 ord z v) = v"
  apply (drule length2E, clarify)
  apply (cases ord; simp)
   apply (rule bit_word_eqI, simp only: bit_or_iff bit_byte_put bit_byte_put0, simp, arith)+
  done

lemma PutUint16_Uint16:
  "length z = 2 \<Longrightarrow> length b = 2 \<Longrightarrow>
   ByteOrder_PutUint16 ord z (ByteOrder_Uint16 ord b) = b"
  apply (drule length2E, drule length2E, clarify)
  apply (cases ord; simp add: unsigned_or_eq byte_get)
  done

lemma Uint32_PutUint32:
  "length z = 4 \<Longrightarrow> ByteOrder_Uint32 ord (ByteOrder_PutUint32 ord z v) = v"
  apply (drule length4E, clarify)
  apply (cases ord; simp)
   apply (rule bit_word_eqI, simp only: bit_or_iff bit_byte_put bit_byte_put0, simp, arith)+
  done

lemma PutUint32_Uint32:
  "length z = 4 \<Longrightarrow> length b = 4 \<Longrightarrow>
   ByteOrder_PutUint32 ord z (ByteOrder_Uint32 ord b) = b"
  apply (drule length4E, drule length4E, clarify)
  apply (cases ord; simp add: unsigned_or_eq byte_get)
  done

lemma Uint64_PutUint64:
  "length z = 8 \<Longrightarrow> ByteOrder_Uint64 ord (ByteOrder_PutUint64 ord z v) = v"
  apply (drule length8E, clarify)
  apply (cases ord; simp)
   apply (rule bit_word_eqI, simp only: bit_or_iff bit_byte_put bit_byte_put0, simp, arith)+
  done

lemma PutUint64_Uint64:
  "length z = 8 \<Longrightarrow> length b = 8 \<Longrightarrow>
   ByteOrder_PutUint64 ord z (ByteOrder_Uint64 ord b) = b"
  apply (drule length8E, drule length8E, clarify)
  apply (cases ord; simp add: unsigned_or_eq byte_get)
  done

section \<open>Round trip of numbers\<close>

lemma fresh_writer_eq:
  "fresh_writer ord = \<lparr>bw_w = bytes_Buffer, bw_ord = ord, bw_n = 0, bw_err = None\<rparr>"
  by (simp add: fresh_writer_def BinaryWriter_SetByteOrder_def NewBinaryWriter_def)

lemma fresh_reader_eq:
  "fresh_reader ord bs =
     \<lparr>br_r = \<lparr>src_bytes = bs, src_err = EOF\<rparr>, br_ord = ord, br_n = 0, br_err = None\<rparr>"
  by (simp add: fresh_reader_def BinaryReader_SetByteOrder_def NewBinaryReader_def)

lemma Bytes_bytes_Buffer:
  "BinaryWriter_Bytes \<lparr>bw_w = bytes_Buffer, bw_ord = ord, bw_n = k, bw_err = None\<rparr> p =
     (False, \<lparr>bw_w = bytes_Buffer\<lparr>sink := p\<rparr>, bw_ord = ord,
              bw_n = k + of_nat (length p), bw_err = None\<rparr>)"
  by (simp add: BinaryWriter_Bytes_def bytes_Buffer_def)

lemma Bytes_exact:
  "length p = length bs \<Longrightarrow>
   BinaryReader_Bytes
     \<lparr>br_r = \<lparr>src_bytes = bs, src_err = e\<rparr>, br_ord = ord, br_n = k, br_err = None\<rparr> p =
     ((False, bs), \<lparr>br_r = \<lparr>src_bytes = [], src_err = e\<rparr>, br_ord = ord,
                     br_n = k + of_nat (length bs), br_err = None\<rparr>)"
  by (simp add: BinaryReader_Bytes_def io_ReadFull_def Let_def)

text \<open>The bytes \<open>BinaryWriter.Number\<close> hands to \<open>Bytes\<close> for each type.\<close>

lemma encode_eq:
  "encode ord x =
     Some (case x of
        Int8 v \<Rightarrow> [v] | Uint8 v \<Rightarrow> [v]
      | Int16 v \<Rightarrow> ByteOrder_PutUint16 ord [0, 0] v
      | Uint16 v \<Rightarrow> ByteOrder_PutUint16 ord [0, 0] v
      | Int32 v \<Rightarrow> ByteOrder_PutUint32 ord [0, 0, 0, 0] v
      | Uint32 v \<Rightarrow> ByteOrder_PutUint32 ord [0, 0, 0, 0] v
      | Int64 v \<Rightarrow> ByteOrder_PutUint64 ord [0, 0, 0, 0, 0, 0, 0, 0] v
      | Uint64 v \<Rightarrow> ByteOrder_PutUint64 ord [0, 0, 0, 0, 0, 0, 0, 0] v
      | Float32 v \<Rightarrow> ByteOrder_PutUint32 ord [0, 0, 0, 0] (Float32bits v)
      | Float64 v \<Rightarrow> ByteOrder_PutUint64 ord [0, 0, 0, 0, 0, 0, 0, 0] (Float64bits v))"
  by (cases x)
     (simp_all add: encode_def fresh_writer_eq BinaryWriter_Number_def Bytes_bytes_Buffer
        returned_def numeral_eq_Suc)

lemma encode_length: "encode ord x = Some bs \<Longrightarrow> length bs = NumberSize (Val x)"
  by (cases x) (auto simp: encode_eq)

lemma decode_encode: "encode ord x = Some bs \<Longrightarrow> decode ord (kind_of x) bs = Some x"
  by (cases x)
     (auto simp: encode_eq decode_def fresh_reader_eq BinaryReader_Number_def Bytes_exact
        Uint16_PutUint16 Uint32_PutUint32 Uint64_PutUint64)

lemma encode_decode:
  "length bs = NumberSize (Ptr k) \<Longrightarrow>
   \<exists>y. decode ord k bs = Some y \<and> kind_of y = k \<and> encode ord y = Some bs"
  by (cases k)
     (auto simp: encode_eq decode_def fresh_reader_eq BinaryReader_Number_def Bytes_exact
        PutUint16_Uint16 PutUint32_Uint32 PutUint64_Uint64 length_Suc_conv)

text \<open>
  C2.  For every number \<open>x\<close> of the ten supported types and both byte orders:
  \<open>BinaryWriter.Number\<close> succeeds and writes \<open>NumberSize\<close> bytes, and
  \<open>BinaryReader.Number\<close> under the same byte order, given a pointer of the type of \<open>x\<close>,
  reads exactly these bytes and stores \<open>x\<close> (for a float, the same bit pattern).
  Conversely every run of bytes of the width of a type decodes to a number of that
  type whose encoding is that run of bytes again.
\<close>

theorem Number_roundtrip:
  "(\<exists>bs. encode ord x = Some bs \<and> length bs = NumberSize (Val x) \<and>
          decode ord (kind_of x) bs = Some x) \<and>
   (length bs' = NumberSize (Ptr k) \<longrightarrow>
      (\<exists>y. decode ord k bs' = Some y \<and> kind_of y = k \<and> encode ord y = Some bs'))"
proof (intro conjI impI)
  obtain bs where bs: "encode ord x = Some bs"
    by (simp add: encode_eq)
  with encode_length [OF bs] decode_encode [OF bs]
  show "\<exists>bs. encode ord x = Some bs \<and> length bs = NumberSize (Val x) \<and>
          decode ord (kind_of x) bs = Some x"
    by blast
next
  assume "length bs' = NumberSize (Ptr k)"
  then show "\<exists>y. decode ord k bs' = Some y \<and> kind_of y = k \<and> encode ord y = Some bs'"
    by (rule encode_decode)
qed

theorem Number_roundtrip_witness:
  "length [4, 3, 2, 1 :: byte] = NumberSize (Ptr KUint32) \<and>
   encode LittleEndian (Uint32 0x01020304) = Some [4, 3, 2, 1] \<and>
   decode LittleEndian KUint32 [4, 3, 2, 1] = Some (Uint32 0x01020304) \<and>
   encode BigEndian (Uint32 0x01020304) = Some [1, 2, 3, 4] \<and>
   decode BigEndian KUint32 [1, 2, 3, 4] = Some (Uint32 0x01020304)"
proof -
  have le: "encode LittleEndian (Uint32 0x01020304) = Some [4, 3, 2, 1]"
    by (simp add: encode_eq)
  have be: "encode BigEndian (Uint32 0x01020304) = Some [1, 2, 3, 4]"
    by (simp add: encode_eq)
  from Number_roundtrip [of LittleEndian "Uint32 0x01020304" "[4, 3, 2, 1]" KUint32]
       Number_roundtrip [of BigEndian "Uint32 0x01020304" "[1, 2, 3, 4]" KUint32] le be
  show ?thesis by simp
qed

section \<open>The latched error\<close>

text \<open>
  C1.  On a cursor whose error is latched (\<open>err\<close> is not nil), every method returns its
  failure value and leaves the whole cursor as it was: the underlying reader or writer
  is not touched and \<open>N\<close> keeps its value.  The failure value is \<open>-1\<close> for \<open>Next\<close> and
  \<open>MustNext\<close>, \<open>false\<close> for \<open>Is\<close> and \<open>Skip\<close>, \<open>("", false)\<close> for \<open>IsAny\<close>, \<open>Until\<close>,
  \<open>UntilAny\<close> and \<open>UntilEOF\<close>, and \<open>true\<close> for the methods of the binary cursors
  (with no data for \<open>All\<close>; \<open>Number\<close> returns before it looks at the type of its
  argument).  \<open>IsEOF\<close> answers from the latched error alone.  \<open>SetByteOrder\<close>, which
  has no result, never changes the underlying reader or writer, \<open>N\<close> or the error.
\<close>

theorem sticky_fault:
  "(tr_err t \<noteq> None \<longrightarrow>
      TextReader_Next t = (-1, t) \<and>
      TextReader_MustNext t = (-1, t) \<and>
      TextReader_Is t s = (False, t) \<and>
      TextReader_IsAny t f = (('''', False), t) \<and>
      TextReader_IsEOF t = (tr_err t = Some EOF, t) \<and>
      TextReader_Skip t f = (False, t) \<and>
      TextReader_Until t v = (('''', False), t) \<and>
      TextReader_UntilAny t f = (('''', False), t) \<and>
      TextReader_UntilEOF t = (('''', False), t)) \<and>
   (br_err r \<noteq> None \<longrightarrow>
      BinaryReader_Add r k e = (True, r) \<and>
      BinaryReader_Bytes r p = ((True, p), r) \<and>
      BinaryReader_Number r a = Return (True, None) r \<and>
      BinaryReader_All r = (([], True), r)) \<and>
   (bw_err w \<noteq> None \<longrightarrow>
      BinaryWriter_Add w k e = (True, w) \<and>
      BinaryWriter_Bytes w p = (True, w) \<and>
      BinaryWriter_Number w a = Return True w) \<and>
   br_r (final_state (BinaryReader_SetByteOrder r order)) = br_r r \<and>
   br_n (final_state (BinaryReader_SetByteOrder r order)) = br_n r \<and>
   br_err (final_state (BinaryReader_SetByteOrder r order)) = br_err r \<and>
   bw_w (final_state (BinaryWriter_SetByteOrder w order)) = bw_w w \<and>
   bw_n (final_state (BinaryWriter_SetByteOrder w order)) = bw_n w \<and>
   bw_err (final_state (BinaryWriter_SetByteOrder w order)) = bw_err w"
  by (simp add: BinaryReader_SetByteOrder_def BinaryWriter_SetByteOrder_def
      split: option.splits)
     (simp add: TextReader_Next_def TextReader_MustNext_def TextReader_Is_def
      TextReader_IsAny_def TextReader_IsEOF_def TextReader_Skip_def TextReader_Until_def
      TextReader_UntilAny_def TextReader_UntilEOF_def BinaryReader_Add_def
      BinaryReader_Bytes_def BinaryReader_Number_def BinaryReader_All_def
      BinaryWriter_Add_def BinaryWriter_Bytes_def BinaryWriter_Number_def)

text \<open>
  The witness runs the theorem on three cursors that have just latched an error: a
  text cursor after \<open>Next\<close> on an empty input, a binary reader after a two-byte read
  from a one-byte source, and a binary writer after \<open>Add\<close> was given an error.
\<close>

theorem sticky_fault_witness:
  "tr_err (snd (TextReader_Next (NewTextReader (Unbuffered '''' EOF)))) \<noteq> None \<and>
   br_err (snd (BinaryReader_Bytes
     (NewBinaryReader \<lparr>src_bytes = [7], src_err = EOF\<rparr>) [0, 0])) \<noteq> None \<and>
   bw_err (snd (BinaryWriter_Add (NewBinaryWriter bytes_Buffer) 0
     (Some (ErrOther ''closed'')))) \<noteq> None \<and>
   TextReader_Until (snd (TextReader_Next (NewTextReader (Unbuffered '''' EOF)))) 59 =
     (('''', False), snd (TextReader_Next (NewTextReader (Unbuffered '''' EOF)))) \<and>
   BinaryReader_Number
     (snd (BinaryReader_Bytes (NewBinaryReader \<lparr>src_bytes = [7], src_err = EOF\<rparr>) [0, 0]))
     (Ptr KUint8) =
     Return (True, None)
       (snd (BinaryReader_Bytes (NewBinaryReader \<lparr>src_bytes = [7], src_err = EOF\<rparr>) [0, 0])) \<and>
   BinaryWriter_Bytes
     (snd (BinaryWriter_Add (NewBinaryWriter bytes_Buffer) 0 (Some (ErrOther ''closed''))))
     [1, 2] =
     (True,
      snd (BinaryWriter_Add (NewBinaryWriter bytes_Buffer) 0 (Some (ErrOther ''closed''))))"
proof -
  have t: "tr_err (snd (TextReader_Next (NewTextReader (Unbuffered '''' EOF)))) \<noteq> None"
    by (simp add: TextReader_Next_def bufio_ReadRune_def bufio_NewReader_def)
  have r: "br_err (snd (BinaryReader_Bytes
      (NewBinaryReader \<lparr>src_bytes = [7], src_err = EOF\<rparr>) [0, 0])) \<noteq> None"
    by (simp add: BinaryReader_Bytes_def NewBinaryReader_def io_ReadFull_def)
  have w: "bw_err (snd (BinaryWriter_Add (NewBinaryWriter bytes_Buffer) 0
      (Some (ErrOther ''closed'')))) \<noteq> None"
    by (simp add: BinaryWriter_Add_def NewBinaryWriter_def)
  from t r w
    sticky_fault [of "snd (TextReader_Next (NewTextReader (Unbuffered '''' EOF)))"
      _ _ 59
      "snd (BinaryReader_Bytes (NewBinaryReader \<lparr>src_bytes = [7], src_err = EOF\<rparr>) [0, 0])"
      _ _ _ "Ptr KUint8"
      "snd (BinaryWriter_Add (NewBinaryWriter bytes_Buffer) 0 (Some (ErrOther ''closed'')))"]
  show ?thesis by blast
qed

section \<open>Short reads\<close>

text \<open>
  C5, as stated, at a source that holds no byte: a one-byte \<open>Bytes\<close> fails, but the
  error it latches is \<open>io.EOF\<close>, the clean end of input, and not
  \<open>io.ErrUnexpectedEOF\<close>.
\<close>

theorem Bytes_empty_source_counterexample:
  "BinaryReader_Bytes (NewBinaryReader \<lparr>src_bytes = [], src_err = EOF\<rparr>) [0] =
     ((True, [0]),
      \<lparr>br_r = \<lparr>src_bytes = [], src_err = EOF\<rparr>, br_ord = LittleEndian, br_n = 0,
       br_err = Some EOF\<rparr>) \<and>
   Some EOF \<noteq> Some ErrUnexpectedEOF"
  by (simp add: BinaryReader_Bytes_def NewBinaryReader_def io_ReadFull_def)

text \<open>
  C5, amended.  When the source ends after fewer than \<open>len(p)\<close> bytes, \<open>Bytes(p)\<close> on
  a cursor with no latched error fails, puts the bytes it obtained at the front of
  \<open>p\<close>, and adds their number to \<open>N\<close>.  The error it latches is
  \<open>io.ErrUnexpectedEOF\<close> when it obtained at least one byte and \<open>io.EOF\<close> when it
  obtained none.
\<close>

theorem Bytes_short_read:
  assumes "br_err r = None"
    and "length (src_bytes (br_r r)) < length p"
    and "src_err (br_r r) = EOF"
  shows "BinaryReader_Bytes r p =
     ((True, src_bytes (br_r r) @ drop (length (src_bytes (br_r r))) p),
      r\<lparr>br_r := (br_r r)\<lparr>src_bytes := []\<rparr>,
        br_err := Some (if src_bytes (br_r r) = [] then EOF else ErrUnexpectedEOF),
        br_n := br_n r + of_nat (length (src_bytes (br_r r)))\<rparr>)"
  using assms by (simp add: BinaryReader_Bytes_def io_ReadFull_def Let_def)

text \<open>The scenario of the specification: ten bytes asked of a six-byte source.\<close>

theorem Bytes_short_read_witness:
  "br_err (NewBinaryReader \<lparr>src_bytes = [1, 2, 3, 4, 5, 6], src_err = EOF\<rparr>) = None \<and>
   length [1, 2, 3, 4, 5, 6 :: byte] < length (replicate 10 (0 :: byte)) \<and>
   BinaryReader_Bytes (NewBinaryReader \<lparr>src_bytes = [1, 2, 3, 4, 5, 6], src_err = EOF\<rparr>)
       (replicate 10 0) =
     ((True, [1, 2, 3, 4, 5, 6, 0, 0, 0, 0]),
      \<lparr>br_r = \<lparr>src_bytes = [], src_err = EOF\<rparr>, br_ord = LittleEndian, br_n = 6,
       br_err = Some ErrUnexpectedEOF\<rparr>)"
  using Bytes_short_read
    [of "NewBinaryReader \<lparr>src_bytes = [1, 2, 3, 4, 5, 6], src_err = EOF\<rparr>"
        "replicate 10 0"]
  by (simp add: NewBinaryReader_def numeral_eq_Suc)

section \<open>Contract violations\<close>

text \<open>
  C8, as stated, on a reader that has latched an error (a one-byte read from an empty
  source): \<open>Number\<close> with an argument of an unsupported type does not panic, it
  returns \<open>true\<close>.
\<close>

theorem Number_unsupported_counterexample:
  "BinaryReader_Number
     (snd (BinaryReader_Bytes (NewBinaryReader \<lparr>src_bytes = [], src_err = EOF\<rparr>) [0]))
     Other =
   Return (True, None)
     \<lparr>br_r = \<lparr>src_bytes = [], src_err = EOF\<rparr>, br_ord = LittleEndian, br_n = 0,
      br_err = Some EOF\<rparr>"
  by (simp add: BinaryReader_Number_def BinaryReader_Bytes_def NewBinaryReader_def
      io_ReadFull_def)

text \<open>
  C8, amended.  \<open>SetByteOrder(nil)\<close> panics on every cursor and leaves it as it was.
  \<open>Number\<close> with an argument of a type \<open>NumberSize\<close> does not accept panics at once,
  leaving the cursor as it was, when no error is latched.  In no case does such a call
  change the latched error.
\<close>

theorem contract_violation_panics:
  "BinaryReader_SetByteOrder r None = Panic ''expected non-nil ByteOrder'' r \<and>
   BinaryWriter_SetByteOrder w None = Panic ''expected non-nil ByteOrder'' w \<and>
   (br_err r = None \<and> NumberSize a = 0 \<longrightarrow>
      BinaryReader_Number r a = Panic ''invalid type'' r) \<and>
   (bw_err w = None \<and> NumberSize a = 0 \<longrightarrow>
      BinaryWriter_Number w a = Panic ''invalid type'' w) \<and>
   (NumberSize a = 0 \<longrightarrow>
      br_err (final_state (BinaryReader_Number r a)) = br_err r \<and>
      bw_err (final_state (BinaryWriter_Number w a)) = bw_err w)"
  by (simp add: BinaryReader_SetByteOrder_def BinaryWriter_SetByteOrder_def
      BinaryReader_Number_def BinaryWriter_Number_def)

theorem contract_violation_panics_witness:
  "br_err (NewBinaryReader \<lparr>src_bytes = [1, 2], src_err = EOF\<rparr>) = None \<and>
   bw_err (NewBinaryWriter bytes_Buffer) = None \<and>
   NumberSize Other = 0 \<and>
   BinaryReader_Number (NewBinaryReader \<lparr>src_bytes = [1, 2], src_err = EOF\<rparr>) Other =
     Panic ''invalid type'' (NewBinaryReader \<lparr>src_bytes = [1, 2], src_err = EOF\<rparr>) \<and>
   BinaryWriter_Number (NewBinaryWriter bytes_Buffer) Other =
     Panic ''invalid type'' (NewBinaryWriter bytes_Buffer)"
  using contract_violation_panics
    [of "NewBinaryReader \<lparr>src_bytes = [1, 2], src_err = EOF\<rparr>"
        "NewBinaryWriter bytes_Buffer" Other]
  by (simp add: NewBinaryReader_def NewBinaryWriter_def)

section \<open>Short writes\<close>

text \<open>
  C9.  When the underlying \<open>Write\<close> reports a count below \<open>len(p)\<close> and a nil error,
  \<open>BinaryWriter.Bytes(p)\<close> returns \<open>true\<close> and adds the count to \<open>N\<close>, and the latched
  error stays nil: \<open>Err\<close> reports none, and a later \<open>Bytes(q)\<close> calls \<open>Write\<close> again
  and counts what it reports.
\<close>

theorem short_write_not_latched:
  assumes "bw_err w = None"
    and "Write (bw_w w) (sink (bw_w w)) p = ((k, None), s)"
    and "k < int (length p)"
  shows "BinaryWriter_Bytes w p =
       (True, w\<lparr>bw_w := (bw_w w)\<lparr>sink := s\<rparr>, bw_err := None,
                bw_n := bw_n w + word_of_int k\<rparr>) \<and>
     BinaryWriter_Err (snd (BinaryWriter_Bytes w p)) = None \<and>
     BinaryWriter_Bytes (snd (BinaryWriter_Bytes w p)) q =
       (case Write (bw_w w) s q of
          ((k', e'), s') \<Rightarrow>
            (k' < int (length q),
             w\<lparr>bw_w := (bw_w w)\<lparr>sink := s'\<rparr>, bw_err := e',
               bw_n := bw_n w + word_of_int k + word_of_int k'\<rparr>))"
  using assms
  by (simp add: BinaryWriter_Bytes_def BinaryWriter_Err_def Let_def split: prod.splits)

theorem short_write_not_latched_witness:
  "bw_err (NewBinaryWriter (short_Writer 2)) = None \<and>
   Write (short_Writer 2) (sink (short_Writer 2)) [1, 2, 3] = ((2, None), [1, 2]) \<and>
   (2 :: int) < int (length [1, 2, 3 :: byte]) \<and>
   BinaryWriter_Bytes (NewBinaryWriter (short_Writer 2)) [1, 2, 3] =
     (True, \<lparr>bw_w = (short_Writer 2)\<lparr>sink := [1, 2]\<rparr>, bw_ord = LittleEndian, bw_n = 2,
             bw_err = None\<rparr>) \<and>
   BinaryWriter_Bytes (snd (BinaryWriter_Bytes (NewBinaryWriter (short_Writer 2)) [1, 2, 3]))
       [9] =
     (False, \<lparr>bw_w = (short_Writer 2)\<lparr>sink := [1, 2, 9]\<rparr>, bw_ord = LittleEndian, bw_n = 3,
              bw_err = None\<rparr>)"
proof -
  have a: "bw_err (NewBinaryWriter (short_Writer 2)) = None"
    by (simp add: NewBinaryWriter_def)
  have b: "Write (bw_w (NewBinaryWriter (short_Writer 2)))
      (sink (bw_w (NewBinaryWriter (short_Writer 2)))) [1, 2, 3] = ((2, None), [1, 2])"
    by (simp add: NewBinaryWriter_def short_Writer_def)
  have c: "(2 :: int) < int (length [1, 2, 3 :: byte])"
    by simp
  from short_write_not_latched [OF a b c, of "[9]"] a b c
  show ?thesis
    by (simp add: NewBinaryWriter_def short_Writer_def BinaryWriter_Bytes_def)
qed

section \<open>A value where a pointer is expected, and a pointer where a value is\<close>



section \<open>Scanning to a terminator\<close>

text \<open>
  A successful \<open>ReadRune\<close> consumes between one byte and all the bytes that are left,
  and remembers the bytes it consumed.
\<close>

lemma first_cases: "first p \<in> {0xF0, 0xF1, 0x02, 0x13, 0x03, 0x23, 0x34, 0x04, 0x44}"
  by (simp add: first_def)

lemma DecodeRune_width:
  "1 \<le> snd (DecodeRune (c # cs)) \<and> snd (DecodeRune (c # cs)) \<le> length (c # cs)"
  using first_cases [of "of_char c"]
  by (cases cs) (auto simp: Let_def)

lemma bufio_ReadRune_width:
  "bufio_ReadRune b = ((c, w, None), b') \<Longrightarrow>
     0 < w \<and> w \<le> length (rd_pending b) \<and>
     rd_lastRune b' = take w (rd_pending b) \<and> rd_pending b' = drop w (rd_pending b)"
  using DecodeRune_width [of "hd (rd_pending b)" "tl (rd_pending b)"]
  by (cases "rd_pending b") (auto simp: bufio_ReadRune_def split: prod.splits if_splits)

text \<open>
  On every input: when \<open>Until\<close> succeeds, the bytes it has taken from the reader are
  the \<open>k\<close> bytes it has added to \<open>N\<close> and, on top of them, the bytes of the terminator
  (at least one), which are in no count.
\<close>

lemma Until_loop_undercount:
  "Until_loop v t = ((s, True), t') \<Longrightarrow>
   \<exists>k. tr_n t' = tr_n t + of_nat k \<and>
       length (rd_pending (tr_r t)) =
         k + length (rd_lastRune (tr_r t')) + length (rd_pending (tr_r t')) \<and>
       0 < length (rd_lastRune (tr_r t'))"
proof (induction v t rule: Until_loop.induct)
  case (1 v t)
  obtain c w e b where rr: "bufio_ReadRune (tr_r t) = ((c, w, e), b)"
    by (cases "bufio_ReadRune (tr_r t)") auto
  let ?t2 = "t\<lparr>tr_r := b, tr_err := e, tr_buf := tr_buf t @ string_of_rune c,
                tr_n := tr_n t + of_nat w\<rparr>"
  have fail: "snd (fst (Until_loop v t)) = False" if "e \<noteq> None"
    using that by (subst Until_loop.simps) (simp add: rr Let_def)
  have hit: "Until_loop v t = ((tr_buf t, True), t\<lparr>tr_r := b, tr_err := e\<rparr>)"
    if "e = None" "c = v"
    using that by (subst Until_loop.simps) (simp add: rr Let_def)
  have miss: "Until_loop v t = Until_loop v ?t2" if "e = None" "c \<noteq> v"
    using that by (subst Until_loop.simps) (simp add: rr Let_def)
  from "1.prems" fail have e: "e = None"
    by (cases e) auto
  note wd = bufio_ReadRune_width [OF rr [unfolded e]]
  show ?case
  proof (cases "c = v")
    case True
    from hit [OF e True] "1.prems" have "t' = t\<lparr>tr_r := b, tr_err := e\<rparr>"
      by simp
    with wd show ?thesis
      by (intro exI [of _ 0]) auto
  next
    case False
    from miss [OF e False] "1.prems" have rec: "Until_loop v ?t2 = ((s, True), t')"
      by simp
    have "\<exists>k. tr_n t' = tr_n ?t2 + of_nat k \<and>
       length (rd_pending (tr_r ?t2)) =
         k + length (rd_lastRune (tr_r t')) + length (rd_pending (tr_r t')) \<and>
       0 < length (rd_lastRune (tr_r t'))"
      using "1.IH" [OF rr [symmetric] refl refl refl] e False rec
      by simp
    then obtain k where "tr_n t' = tr_n ?t2 + of_nat k"
      "length (rd_pending (tr_r ?t2)) =
         k + length (rd_lastRune (tr_r t')) + length (rd_pending (tr_r t'))"
      "0 < length (rd_lastRune (tr_r t'))"
      by auto
    with wd show ?thesis
      by (intro exI [of _ "w + k"]) (auto simp: add.assoc)
  qed
qed

lemma Until_undercount:
  assumes "TextReader_Until t v = ((s, True), t')"
  shows "\<exists>k. tr_n t' = tr_n t + of_nat k \<and>
       length (rd_pending (tr_r t)) =
         k + length (rd_lastRune (tr_r t')) + length (rd_pending (tr_r t')) \<and>
       0 < length (rd_lastRune (tr_r t'))"
proof -
  from assms have "Until_loop v (t\<lparr>tr_buf := []\<rparr>) = ((s, True), t')"
    by (auto simp: TextReader_Until_def split: if_splits)
  from Until_loop_undercount [OF this] show ?thesis
    by simp
qed

text \<open>The same holds for \<open>UntilAny\<close> and the rune that satisfies the predicate.\<close>

lemma UntilAny_loop_undercount:
  "UntilAny_loop f t = ((s, True), t') \<Longrightarrow>
   \<exists>k. tr_n t' = tr_n t + of_nat k \<and>
       length (rd_pending (tr_r t)) =
         k + length (rd_lastRune (tr_r t')) + length (rd_pending (tr_r t')) \<and>
       0 < length (rd_lastRune (tr_r t'))"
proof (induction f t rule: UntilAny_loop.induct)
  case (1 f t)
  obtain c w e b where rr: "bufio_ReadRune (tr_r t) = ((c, w, e), b)"
    by (cases "bufio_ReadRune (tr_r t)") auto
  let ?t2 = "t\<lparr>tr_r := b, tr_err := e, tr_buf := tr_buf t @ string_of_rune c,
                tr_n := tr_n t + of_nat w\<rparr>"
  have fail: "snd (fst (UntilAny_loop f t)) = False" if "e \<noteq> None"
    using that by (subst UntilAny_loop.simps) (simp add: rr Let_def)
  have hit: "UntilAny_loop f t = ((tr_buf t, True), t\<lparr>tr_r := b, tr_err := e\<rparr>)"
    if "e = None" "f c"
    using that by (subst UntilAny_loop.simps) (simp add: rr Let_def)
  have miss: "UntilAny_loop f t = UntilAny_loop f ?t2" if "e = None" "\<not> f c"
    using that by (subst UntilAny_loop.simps) (simp add: rr Let_def)
  from "1.prems" fail have e: "e = None"
    by (cases e) auto
  note wd = bufio_ReadRune_width [OF rr [unfolded e]]
  show ?case
  proof (cases "f c")
    case True
    from hit [OF e True] "1.prems" have "t' = t\<lparr>tr_r := b, tr_err := e\<rparr>"
      by simp
    with wd show ?thesis
      by (intro exI [of _ 0]) auto
  next
    case False
    from miss [OF e False] "1.prems" have rec: "UntilAny_loop f ?t2 = ((s, True), t')"
      by simp
    have "\<exists>k. tr_n t' = tr_n ?t2 + of_nat k \<and>
       length (rd_pending (tr_r ?t2)) =
         k + length (rd_lastRune (tr_r t')) + length (rd_pending (tr_r t')) \<and>
       0 < length (rd_lastRune (tr_r t'))"
      using "1.IH" [OF rr [symmetric] refl refl refl] e False rec
      by simp
    then obtain k where "tr_n t' = tr_n ?t2 + of_nat k"
      "length (rd_pending (tr_r ?t2)) =
         k + length (rd_lastRune (tr_r t')) + length (rd_pending (tr_r t'))"
      "0 < length (rd_lastRune (tr_r t'))"
      by auto
    with wd show ?thesis
      by (intro exI [of _ "w + k"]) (auto simp: add.assoc)
  qed
qed

lemma UntilAny_undercount:
  assumes "TextReader_UntilAny t f = ((s, True), t')"
  shows "\<exists>k. tr_n t' = tr_n t + of_nat k \<and>
       length (rd_pending (tr_r t)) =
         k + length (rd_lastRune (tr_r t')) + length (rd_pending (tr_r t')) \<and>
       0 < length (rd_lastRune (tr_r t'))"
proof -
  from assms have "UntilAny_loop f (t\<lparr>tr_buf := []\<rparr>) = ((s, True), t')"
    by (auto simp: TextReader_UntilAny_def split: if_splits)
  from UntilAny_loop_undercount [OF this] show ?thesis
    by simp
qed

text \<open>
  C3, at the input of the specification's scenario.  \<open>Until(';')\<close> on \<open>"abc;def"\<close>
  returns \<open>"abc"\<close> and leaves the reader at \<open>"def"\<close>: four bytes have been read from
  the underlying reader.  \<open>N\<close> is 3: the loop returns at the terminator before it adds
  the terminator's width, so the count does not cover \<open>"abc;"\<close>.  (On \<open>"abc"\<close>, where
  the terminator is missing, the error latched is \<open>io.ErrUnexpectedEOF\<close>.)
\<close>

theorem Until_scenario:
  "TextReader_Until (NewTextReader (Unbuffered ''abc;def'' EOF)) 0x3B =
     ((''abc'', True),
      \<lparr>tr_r = \<lparr>rd_pending = ''def'', rd_err = EOF, rd_size = 4096, rd_lastRune = '';''\<rparr>,
       tr_buf = ''abc'', tr_n = 3, tr_err = None\<rparr>) \<and>
   TextReader_N (snd (TextReader_Until (NewTextReader (Unbuffered ''abc;def'' EOF)) 0x3B))
     \<noteq> 4 \<and>
   TextReader_Until (NewTextReader (Unbuffered ''abc'' EOF)) 0x3B =
     (('''', False),
      \<lparr>tr_r = \<lparr>rd_pending = '''', rd_err = EOF, rd_size = 4096, rd_lastRune = ''''\<rparr>,
       tr_buf = ''abc'', tr_n = 3, tr_err = Some ErrUnexpectedEOF\<rparr>)"
  by code_simp

text \<open>
  C4, at the same input with the predicate "is \<open>';'\<close>".  \<open>UntilAny\<close> returns \<open>"abc"\<close>,
  but the matching \<open>';'\<close> has been consumed (the loop returns without \<open>UnreadRune\<close>):
  the reader is left at \<open>"def"\<close> and the next \<open>Next\<close> returns \<open>'d'\<close> (100), not \<open>';'\<close>
  (59).  \<open>N\<close> is 3 after \<open>UntilAny\<close>, as if the \<open>';'\<close> had not been read.
\<close>

theorem UntilAny_scenario:
  "TextReader_UntilAny (NewTextReader (Unbuffered ''abc;def'' EOF)) (\<lambda>c. c = 0x3B) =
     ((''abc'', True),
      \<lparr>tr_r = \<lparr>rd_pending = ''def'', rd_err = EOF, rd_size = 4096, rd_lastRune = '';''\<rparr>,
       tr_buf = ''abc'', tr_n = 3, tr_err = None\<rparr>) \<and>
   fst (TextReader_Next
     (snd (TextReader_UntilAny (NewTextReader (Unbuffered ''abc;def'' EOF))
        (\<lambda>c. c = 0x3B)))) = 100"
  by code_simp

section \<open>Matching a literal\<close>

text \<open>
  C6, as stated, on a cursor that has latched an error (\<open>Next\<close> on an empty input
  latches \<open>io.EOF\<close>): matching the empty string fails.
\<close>

theorem Is_empty_string_counterexample:
  "TextReader_Is (snd (TextReader_Next (NewTextReader (Unbuffered '''' EOF)))) '''' =
     (False,
      \<lparr>tr_r = \<lparr>rd_pending = '''', rd_err = EOF, rd_size = 4096, rd_lastRune = ''''\<rparr>,
       tr_buf = replicate 64 (CHR 0x00), tr_n = 0, tr_err = Some EOF\<rparr>)"
  by (simp add: TextReader_Is_def TextReader_Next_def bufio_ReadRune_def
      bufio_NewReader_def)

text \<open>
  C6, amended.  A failing \<open>Is(s)\<close> leaves the bytes still to be read, the error the
  underlying reader will report after them, and \<open>N\<close> as they were; when it leaves no
  error latched, the next \<open>Next\<close> does exactly what it would have done before the
  call.  A succeeding \<open>Is(s)\<close> consumes \<open>s\<close> from the front of the input and adds
  \<open>len(s)\<close> to \<open>N\<close>.  On a cursor with no latched error, matching the empty string
  succeeds and changes nothing.
\<close>

theorem Is_lookahead:
  "(\<not> fst (TextReader_Is t s) \<longrightarrow>
      rd_pending (tr_r (snd (TextReader_Is t s))) = rd_pending (tr_r t) \<and>
      rd_err (tr_r (snd (TextReader_Is t s))) = rd_err (tr_r t) \<and>
      tr_n (snd (TextReader_Is t s)) = tr_n t) \<and>
   (\<not> fst (TextReader_Is t s) \<and> tr_err (snd (TextReader_Is t s)) = None \<longrightarrow>
      TextReader_Next (snd (TextReader_Is t s)) = TextReader_Next t) \<and>
   (fst (TextReader_Is t s) \<longrightarrow>
      rd_pending (tr_r t) = s @ rd_pending (tr_r (snd (TextReader_Is t s))) \<and>
      tr_n (snd (TextReader_Is t s)) = tr_n t + of_nat (length s)) \<and>
   (tr_err t = None \<longrightarrow> TextReader_Is t '''' = (True, t))"
proof -
  have next_eq: "TextReader_Next (t\<lparr>tr_r := (tr_r t)\<lparr>rd_lastRune := []\<rparr>, tr_err := None\<rparr>) =
      TextReader_Next t" if "tr_err t = None"
    using that by (simp add: TextReader_Next_def bufio_ReadRune_def split: prod.splits)
  have prefix: "s @ drop (length s) bs = bs" if "take (length s) bs = s" for bs
    using that append_take_drop_id [of "length s" bs] by simp
  show ?thesis
    by (auto simp: TextReader_Is_def bufio_Peek_def bufio_Discard_def Let_def next_eq prefix
        split: if_splits)
qed

text \<open>The scenario of the specification: \<open>Is("GET")\<close> against \<open>"GET /x"\<close> and \<open>"POST /x"\<close>.\<close>

theorem Is_lookahead_witness:
  "fst (TextReader_Is (NewTextReader (Unbuffered ''GET /x'' EOF)) ''GET'') \<and>
   rd_pending (tr_r (snd (TextReader_Is (NewTextReader (Unbuffered ''GET /x'' EOF)) ''GET'')))
     = '' /x'' \<and>
   tr_n (snd (TextReader_Is (NewTextReader (Unbuffered ''GET /x'' EOF)) ''GET'')) = 3 \<and>
   \<not> fst (TextReader_Is (NewTextReader (Unbuffered ''POST /x'' EOF)) ''GET'') \<and>
   tr_err (snd (TextReader_Is (NewTextReader (Unbuffered ''POST /x'' EOF)) ''GET'')) = None \<and>
   rd_pending (tr_r (snd (TextReader_Is (NewTextReader (Unbuffered ''POST /x'' EOF)) ''GET'')))
     = ''POST /x'' \<and>
   tr_n (snd (TextReader_Is (NewTextReader (Unbuffered ''POST /x'' EOF)) ''GET'')) = 0 \<and>
   fst (TextReader_Next
     (snd (TextReader_Is (NewTextReader (Unbuffered ''POST /x'' EOF)) ''GET''))) = 80 \<and>
   tr_err (NewTextReader (Unbuffered ''POST /x'' EOF)) = None \<and>
   TextReader_Is (NewTextReader (Unbuffered ''POST /x'' EOF)) '''' =
     (True, NewTextReader (Unbuffered ''POST /x'' EOF))"
proof -
  have get: "fst (TextReader_Is (NewTextReader (Unbuffered ''GET /x'' EOF)) ''GET'')"
    by (simp add: TextReader_Is_def bufio_Peek_def bufio_NewReader_def)
  have post: "\<not> fst (TextReader_Is (NewTextReader (Unbuffered ''POST /x'' EOF)) ''GET'')"
    by (simp add: TextReader_Is_def bufio_Peek_def bufio_NewReader_def)
  have clean:
    "tr_err (snd (TextReader_Is (NewTextReader (Unbuffered ''POST /x'' EOF)) ''GET'')) = None"
    by (simp add: TextReader_Is_def bufio_Peek_def bufio_NewReader_def)
  have p: "fst (TextReader_Next (NewTextReader (Unbuffered ''POST /x'' EOF))) = 80"
    by code_simp
  from Is_lookahead [of "NewTextReader (Unbuffered ''GET /x'' EOF)" "''GET''"]
       Is_lookahead [of "NewTextReader (Unbuffered ''POST /x'' EOF)" "''GET''"]
       get post clean p
  show ?thesis
    by (simp add: bufio_NewReader_def)
qed

text \<open>
  C7, as stated, at a reader that fails with an I/O error after \<open>"GE"\<close>: \<open>Is("GET")\<close>
  returns false and the I/O error of the peek stays latched on the cursor.
\<close>

theorem Is_io_error_counterexample:
  "fst (TextReader_Is
     (NewTextReader (Unbuffered ''GE'' (ErrOther ''connection reset''))) ''GET'') = False \<and>
   tr_err (snd (TextReader_Is
     (NewTextReader (Unbuffered ''GE'' (ErrOther ''connection reset''))) ''GET'')) =
     Some (ErrOther ''connection reset'')"
  by (simp add: TextReader_Is_def bufio_Peek_def bufio_NewReader_def)

text \<open>
  C7, amended.  When the peek of \<open>Is(s)\<close> fails, the call returns false and consumes
  nothing.  A peek that fails with \<open>io.EOF\<close> leaves no error latched; a peek that fails
  with any other error leaves that error latched.
\<close>

theorem Is_peek_error:
  assumes "tr_err t = None"
    and "s \<noteq> []"
    and "snd (fst (bufio_Peek (tr_r t) (length s))) = Some e"
  shows "fst (TextReader_Is t s) = False \<and>
     tr_err (snd (TextReader_Is t s)) = (if e = EOF then None else Some e) \<and>
     rd_pending (tr_r (snd (TextReader_Is t s))) = rd_pending (tr_r t) \<and>
     tr_n (snd (TextReader_Is t s)) = tr_n t"
  using assms
  by (auto simp: TextReader_Is_def bufio_Peek_def Let_def split: if_splits)

theorem Is_peek_error_witness:
  "tr_err (NewTextReader (Unbuffered ''GE'' EOF)) = None \<and>
   ''GET'' \<noteq> [] \<and>
   snd (fst (bufio_Peek (tr_r (NewTextReader (Unbuffered ''GE'' EOF))) (length ''GET''))) =
     Some EOF \<and>
   fst (TextReader_Is (NewTextReader (Unbuffered ''GE'' EOF)) ''GET'') = False \<and>
   tr_err (snd (TextReader_Is (NewTextReader (Unbuffered ''GE'' EOF)) ''GET'')) = None \<and>
   snd (fst (bufio_Peek
     (tr_r (NewTextReader (Unbuffered ''GE'' (ErrOther ''connection reset''))))
     (length ''GET''))) = Some (ErrOther ''connection reset'') \<and>
   tr_err (snd (TextReader_Is
     (NewTextReader (Unbuffered ''GE'' (ErrOther ''connection reset''))) ''GET'')) =
     Some (ErrOther ''connection reset'')"
proof -
  have a: "tr_err (NewTextReader (Unbuffered ''GE'' e)) = None" for e
    by simp
  have b: "''GET'' \<noteq> []"
    by simp
  have c: "snd (fst (bufio_Peek (tr_r (NewTextReader (Unbuffered ''GE'' e)))
      (length ''GET''))) = Some e" for e
    by (simp add: bufio_Peek_def bufio_NewReader_def)
  from Is_peek_error [OF a b c, of EOF]
       Is_peek_error [OF a b c, of "ErrOther ''connection reset''"] a b c
  show ?thesis
    by simp
qed

end
